theory Spec2Isabelle
  imports Main "HOL-Library.Char_ord" "HOL-Library.List_Lexorder"
begin

section \<open>Data model (types of the task manager)\<close>

text \<open>
  The \<open>Task\<close> and \<open>SyncOperation\<close> interfaces. A string is a list of code units
  up to U+00FF. The \<open>version\<close> of a task is a JavaScript \<open>number\<close> with an integer
  value: the \<open>int\<close> is that value, and \<open>add_one\<close> below is the addition of 1 the
  program performs on it. An optional property (\<open>description?\<close>) is an \<open>option\<close>.
\<close>

record task =
  task_id :: string
  title :: string
  description :: "string option"
  completed :: bool
  createdAt :: string
  updatedAt :: string
  userId :: string
  version :: int

text \<open>
  \<open>Partial<Task>\<close>: every property may be absent (\<open>None\<close>). A present \<open>description\<close>
  may itself be \<open>undefined\<close>, hence the nested option.
\<close>

record partial_task =
  p_id :: "string option"
  p_title :: "string option"
  p_description :: "string option option"
  p_completed :: "bool option"
  p_createdAt :: "string option"
  p_updatedAt :: "string option"
  p_userId :: "string option"
  p_version :: "int option"

datatype op_kind = Create | Update | Delete

record sync_operation =
  op_id :: string
  operation :: op_kind
  taskId :: string
  data :: partial_task
  timestamp :: string
  synced :: bool

text \<open>
  A rejected promise carries either a JavaScript \<open>Error\<close> (with its message) or the
  \<open>ApiError\<close> object thrown by the fetch wrapper (message, status, code).
\<close>

datatype error = Error string | ApiError string "nat option" "string option"

record sync_result =
  synced_count :: int
  conflicts :: "task list"

section \<open>Adding one to a version\<close>

text \<open>
  \<open>version + 1\<close> on an integer-valued IEEE 754 double. The sum is exact as long as
  its magnitude is at most \<open>2^53\<close>. Beyond, the doubles are 2 apart up to \<open>2^54\<close> and at
  least 4 apart after: the sum lies halfway between two doubles and is rounded to the
  one with the even significand, or it lies nearest to the number it started from.
  So \<open>2^53 + 1\<close> is \<open>2^53\<close> again.
\<close>

definition add_one :: "int \<Rightarrow> int" where
  "add_one v =
     (if \<bar>v + 1\<bar> \<le> 2 ^ 53 then v + 1
      else if \<bar>v\<bar> < 2 ^ 54 \<and> \<bar>v\<bar> mod 4 \<noteq> 0 then v + 2
      else v)"

section \<open>Object spread\<close>

text \<open>\<open>{}\<close> as a \<open>Partial<Task>\<close>.\<close>

definition empty_partial :: partial_task where
  "empty_partial = \<lparr>p_id = None, p_title = None, p_description = None, p_completed = None,
     p_createdAt = None, p_updatedAt = None, p_userId = None, p_version = None\<rparr>"

text \<open>A whole task used where a \<open>Partial<Task>\<close> is expected: every property is present.\<close>

definition partial_of_task :: "task \<Rightarrow> partial_task" where
  "partial_of_task t = \<lparr>p_id = Some (task_id t), p_title = Some (title t),
     p_description = Some (description t), p_completed = Some (completed t),
     p_createdAt = Some (createdAt t), p_updatedAt = Some (updatedAt t),
     p_userId = Some (userId t), p_version = Some (version t)\<rparr>"

text \<open>\<open>{ ...task, ...updates }\<close>: each property present in \<open>updates\<close> overrides the task's.\<close>

definition spread :: "task \<Rightarrow> partial_task \<Rightarrow> task" where
  "spread t u = \<lparr>
     task_id = (case p_id u of None \<Rightarrow> task_id t | Some v \<Rightarrow> v),
     title = (case p_title u of None \<Rightarrow> title t | Some v \<Rightarrow> v),
     description = (case p_description u of None \<Rightarrow> description t | Some v \<Rightarrow> v),
     completed = (case p_completed u of None \<Rightarrow> completed t | Some v \<Rightarrow> v),
     createdAt = (case p_createdAt u of None \<Rightarrow> createdAt t | Some v \<Rightarrow> v),
     updatedAt = (case p_updatedAt u of None \<Rightarrow> updatedAt t | Some v \<Rightarrow> v),
     userId = (case p_userId u of None \<Rightarrow> userId t | Some v \<Rightarrow> v),
     version = (case p_version u of None \<Rightarrow> version t | Some v \<Rightarrow> v)\<rparr>"

section \<open>The Local Store: two IndexedDB object stores with key path \<open>id\<close>\<close>

text \<open>
  An object store whose key is read from the record (\<open>keyPath: 'id'\<close>) is a collection
  of records. \<open>put\<close> replaces whatever record has the same key, \<open>delete\<close> removes by
  key, \<open>get\<close> looks a key up, and \<open>getAll\<close> returns the records in ascending order of
  their key (strings compare code unit by code unit, a proper prefix first: the
  lexicographic order on \<open>string\<close>).
\<close>

definition store_get :: "('a \<Rightarrow> string) \<Rightarrow> string \<Rightarrow> 'a list \<Rightarrow> 'a option" where
  "store_get key k xs = find (\<lambda>x. key x = k) xs"

definition store_put :: "('a \<Rightarrow> string) \<Rightarrow> 'a \<Rightarrow> 'a list \<Rightarrow> 'a list" where
  "store_put key v xs = filter (\<lambda>x. key x \<noteq> key v) xs @ [v]"

definition store_delete :: "('a \<Rightarrow> string) \<Rightarrow> string \<Rightarrow> 'a list \<Rightarrow> 'a list" where
  "store_delete key k xs = filter (\<lambda>x. key x \<noteq> k) xs"

definition store_getAll :: "('a \<Rightarrow> string) \<Rightarrow> 'a list \<Rightarrow> 'a list" where
  "store_getAll key xs = sort_key key xs"

subsection \<open>\<open>taskDB\<close>\<close>

definition taskDB_getAll :: "task list \<Rightarrow> task list" where
  "taskDB_getAll db = store_getAll task_id db"

definition taskDB_get :: "string \<Rightarrow> task list \<Rightarrow> task option" where
  "taskDB_get k db = store_get task_id k db"

definition taskDB_put :: "task \<Rightarrow> task list \<Rightarrow> task list" where
  "taskDB_put t db = store_put task_id t db"

definition taskDB_delete :: "string \<Rightarrow> task list \<Rightarrow> task list" where
  "taskDB_delete k db = store_delete task_id k db"

definition taskDB_clear :: "task list \<Rightarrow> task list" where
  "taskDB_clear db = []"

text \<open>\<open>bulkPut\<close> issues one \<open>put\<close> per task, in list order, inside one transaction.\<close>

definition taskDB_bulkPut :: "task list \<Rightarrow> task list \<Rightarrow> task list" where
  "taskDB_bulkPut ts db = fold taskDB_put ts db"

subsection \<open>\<open>syncQueueDB\<close>\<close>

definition syncQueueDB_getAll :: "sync_operation list \<Rightarrow> sync_operation list" where
  "syncQueueDB_getAll q = store_getAll op_id q"

definition syncQueueDB_getUnsynced :: "sync_operation list \<Rightarrow> sync_operation list" where
  "syncQueueDB_getUnsynced q = filter (\<lambda>op. \<not> synced op) (store_getAll op_id q)"

definition syncQueueDB_add :: "sync_operation \<Rightarrow> sync_operation list \<Rightarrow> sync_operation list" where
  "syncQueueDB_add op q = store_put op_id op q"

definition syncQueueDB_markSynced :: "string \<Rightarrow> sync_operation list \<Rightarrow> sync_operation list" where
  "syncQueueDB_markSynced k q =
     (case store_get op_id k q of
        None \<Rightarrow> q
      | Some op \<Rightarrow> store_put op_id (op\<lparr>synced := True\<rparr>) q)"

definition syncQueueDB_delete :: "string \<Rightarrow> sync_operation list \<Rightarrow> sync_operation list" where
  "syncQueueDB_delete k q = store_delete op_id k q"

definition syncQueueDB_clear :: "sync_operation list \<Rightarrow> sync_operation list" where
  "syncQueueDB_clear q = []"

text \<open>\<open>clearSynced\<close> deletes, by key, every record that \<open>getAll\<close> reports as synced.\<close>

definition syncQueueDB_clearSynced :: "sync_operation list \<Rightarrow> sync_operation list" where
  "syncQueueDB_clearSynced q =
     fold (\<lambda>op. store_delete op_id (op_id op))
       (filter (\<lambda>op. synced op) (store_getAll op_id q)) q"

section \<open>The UI store (\<open>useTaskStore\<close>)\<close>

datatype sync_status = StatusIdle | StatusSyncing | StatusSuccess | StatusError

record task_state =
  tasks :: "task list"
  loading :: bool
  error :: "string option"
  syncStatus :: sync_status
  isOffline :: bool

definition setTasks :: "task list \<Rightarrow> task_state \<Rightarrow> task_state" where
  "setTasks ts st = st\<lparr>tasks := ts\<rparr>"

definition addTask :: "task \<Rightarrow> task_state \<Rightarrow> task_state" where
  "addTask t st = st\<lparr>tasks := tasks st @ [t]\<rparr>"

definition updateTask :: "string \<Rightarrow> partial_task \<Rightarrow> task_state \<Rightarrow> task_state" where
  "updateTask i updates st =
     st\<lparr>tasks := map (\<lambda>t. if task_id t = i
                             then (spread t updates)\<lparr>version := add_one (version t)\<rparr>
                             else t) (tasks st)\<rparr>"

definition deleteTask :: "string \<Rightarrow> task_state \<Rightarrow> task_state" where
  "deleteTask i st = st\<lparr>tasks := filter (\<lambda>t. task_id t \<noteq> i) (tasks st)\<rparr>"

definition setLoading :: "bool \<Rightarrow> task_state \<Rightarrow> task_state" where
  "setLoading b st = st\<lparr>loading := b\<rparr>"

definition setError :: "string option \<Rightarrow> task_state \<Rightarrow> task_state" where
  "setError e st = st\<lparr>error := e\<rparr>"

definition setSyncStatus :: "sync_status \<Rightarrow> task_state \<Rightarrow> task_state" where
  "setSyncStatus x st = st\<lparr>syncStatus := x\<rparr>"

definition setOffline :: "bool \<Rightarrow> task_state \<Rightarrow> task_state" where
  "setOffline b st = st\<lparr>isOffline := b\<rparr>"

definition clearTasks :: "task_state \<Rightarrow> task_state" where
  "clearTasks st = st\<lparr>tasks := []\<rparr>"

section \<open>The API client and the Remote Task Service\<close>

text \<open>
  The JSON bodies built by \<open>api.tasks.create\<close> and \<open>api.tasks.update\<close>. A property
  whose value is \<open>undefined\<close> is dropped by \<open>JSON.stringify\<close>: \<open>None\<close>.
\<close>

record create_body =
  cb_title :: string
  cb_description :: "string option"
  cb_priority :: string
  cb_status :: string
  cb_due_date :: "string option"
  cb_recursion :: "string option"
  cb_category :: string
  cb_tags :: "string list"
  cb_user_id :: "string option"

record update_body =
  ub_title :: "string option"
  ub_description :: "string option"
  ub_status :: "string option"
  ub_priority :: "string option"
  ub_completed :: "bool option"
  ub_due_date :: "string option"
  ub_recursion :: "string option"
  ub_category :: "string option"
  ub_tags :: "string list option"

text \<open>The form's \<open>taskData\<close> object has a title and an optional description only.\<close>

record task_data =
  d_title :: string
  d_description :: "string option"

definition create_request_body :: "task_data \<Rightarrow> create_body" where
  "create_request_body d = \<lparr>cb_title = d_title d, cb_description = d_description d,
     cb_priority = ''medium'', cb_status = ''pending'', cb_due_date = None,
     cb_recursion = None, cb_category = ''General'', cb_tags = [], cb_user_id = None\<rparr>"

text \<open>
  Both callers of \<open>api.tasks.update\<close> pass an object typed from \<open>Task\<close>, which has none
  of \<open>status\<close>, \<open>priority\<close>, \<open>dueDate\<close>, \<open>recursion\<close>, \<open>category\<close>, \<open>tags\<close>: the body
  carries at most the title, the description and the completed flag.
\<close>

definition update_request_body :: "partial_task \<Rightarrow> update_body" where
  "update_request_body u = \<lparr>ub_title = p_title u,
     ub_description = (case p_description u of Some (Some v) \<Rightarrow> Some v | _ \<Rightarrow> None),
     ub_status = None, ub_priority = None, ub_completed = p_completed u,
     ub_due_date = None, ub_recursion = None, ub_category = None, ub_tags = None\<rparr>"

text \<open>Every request the client sends, as endpoint and body.\<close>

datatype api_call =
    TasksList
  | TasksGet string
  | TasksCreate create_body
  | TasksUpdate string update_body
  | TasksDelete string
  | SyncOperations "sync_operation list"

text \<open>
  The Remote Task Service is outside the program: it is a parameter that fixes, for
  each request, whether the call throws (\<open>Inl\<close>) or which value it resolves to.
\<close>

record remote =
  resp_list :: "error + task list"
  resp_get :: "string \<Rightarrow> error + task"
  resp_create :: "create_body \<Rightarrow> error + task"
  resp_update :: "string \<Rightarrow> update_body \<Rightarrow> error + task"
  resp_delete :: "string \<Rightarrow> error + string"
  resp_syncOperations :: "sync_operation list \<Rightarrow> error + sync_result"

section \<open>Application state\<close>

text \<open>
  The two object stores, the UI store, and the requests sent so far (\<open>net\<close>, oldest
  first).
\<close>

record app =
  taskStore :: "task list"
  syncQueue :: "sync_operation list"
  ui :: task_state
  net :: "api_call list"

definition api_tasks_list :: "remote \<Rightarrow> app \<Rightarrow> (error + task list) \<times> app" where
  "api_tasks_list rem s = (resp_list rem, s\<lparr>net := net s @ [TasksList]\<rparr>)"

definition api_tasks_get :: "remote \<Rightarrow> string \<Rightarrow> app \<Rightarrow> (error + task) \<times> app" where
  "api_tasks_get rem i s = (resp_get rem i, s\<lparr>net := net s @ [TasksGet i]\<rparr>)"

definition api_tasks_create :: "remote \<Rightarrow> task_data \<Rightarrow> app \<Rightarrow> (error + task) \<times> app" where
  "api_tasks_create rem d s =
     (resp_create rem (create_request_body d),
      s\<lparr>net := net s @ [TasksCreate (create_request_body d)]\<rparr>)"

definition api_tasks_update ::
  "remote \<Rightarrow> string \<Rightarrow> partial_task \<Rightarrow> app \<Rightarrow> (error + task) \<times> app" where
  "api_tasks_update rem i u s =
     (resp_update rem i (update_request_body u),
      s\<lparr>net := net s @ [TasksUpdate i (update_request_body u)]\<rparr>)"

definition api_tasks_delete :: "remote \<Rightarrow> string \<Rightarrow> app \<Rightarrow> (error + string) \<times> app" where
  "api_tasks_delete rem i s = (resp_delete rem i, s\<lparr>net := net s @ [TasksDelete i]\<rparr>)"

definition api_sync_syncOperations ::
  "remote \<Rightarrow> sync_operation list \<Rightarrow> app \<Rightarrow> (error + sync_result) \<times> app" where
  "api_sync_syncOperations rem ops s =
     (resp_syncOperations rem ops, s\<lparr>net := net s @ [SyncOperations ops]\<rparr>)"

section \<open>The sync manager\<close>

text \<open>
  \<open>generateId()\<close> and \<open>new Date().toISOString()\<close> read the clock and the random
  generator: the strings they return are arguments of the functions that call them
  (\<open>tempId\<close>, \<open>opId\<close>, \<open>now\<close>). An async function that can reject returns an
  \<open>error + 'a\<close> next to the state it leaves behind.
\<close>

definition createTaskOffline ::
  "task_data \<Rightarrow> string \<Rightarrow> string \<Rightarrow> string \<Rightarrow> app \<Rightarrow> task \<times> app" where
  "createTaskOffline d tempId now opId s =
     (let t = \<lparr>task_id = tempId, title = d_title d, description = d_description d,
                completed = False, createdAt = now, updatedAt = now,
                userId = ''temp'', version = 1\<rparr>;
          s1 = s\<lparr>taskStore := taskDB_put t (taskStore s)\<rparr>;
          op = \<lparr>op_id = opId, operation = Create, taskId = task_id t,
                 data = partial_of_task t, timestamp = now, synced = False\<rparr>;
          s2 = s1\<lparr>syncQueue := syncQueueDB_add op (syncQueue s1)\<rparr>;
          s3 = s2\<lparr>ui := addTask t (ui s2)\<rparr>
      in (t, s3))"

definition updateTaskOffline ::
  "string \<Rightarrow> partial_task \<Rightarrow> string \<Rightarrow> string \<Rightarrow> app \<Rightarrow> (error + unit) \<times> app" where
  "updateTaskOffline i updates now opId s =
     (case taskDB_get i (taskStore s) of
        None \<Rightarrow> (Inl (Error ''Task not found''), s)
      | Some t \<Rightarrow>
          (let updatedTask = (spread t updates)\<lparr>updatedAt := now,
                                 version := add_one (version t)\<rparr>;
               s1 = s\<lparr>taskStore := taskDB_put updatedTask (taskStore s)\<rparr>;
               op = \<lparr>op_id = opId, operation = Update, taskId = i, data = updates,
                      timestamp = updatedAt updatedTask, synced = False\<rparr>;
               s2 = s1\<lparr>syncQueue := syncQueueDB_add op (syncQueue s1)\<rparr>;
               s3 = s2\<lparr>ui := updateTask i updates (ui s2)\<rparr>
           in (Inr (), s3)))"

definition deleteTaskOffline :: "string \<Rightarrow> string \<Rightarrow> string \<Rightarrow> app \<Rightarrow> app" where
  "deleteTaskOffline i opId now s =
     (let op = \<lparr>op_id = opId, operation = Delete, taskId = i, data = empty_partial,
                  timestamp = now, synced = False\<rparr>;
          s1 = s\<lparr>syncQueue := syncQueueDB_add op (syncQueue s)\<rparr>;
          s2 = s1\<lparr>taskStore := taskDB_delete i (taskStore s1)\<rparr>;
          s3 = s2\<lparr>ui := deleteTask i (ui s2)\<rparr>
      in s3)"

text \<open>
  The body of the \<open>try\<close> block of \<open>syncWithBackend\<close>. The \<open>markSynced\<close> promises of
  \<open>Promise.all\<close> each read and write the record of one key, and the keys of the
  records \<open>getUnsynced\<close> returned differ: they are run one after the other.
\<close>

definition syncWithBackend_try :: "remote \<Rightarrow> app \<Rightarrow> (error + sync_result) \<times> app" where
  "syncWithBackend_try rem s =
     (let s1 = s\<lparr>ui := setSyncStatus StatusSyncing (ui s)\<rparr>;
          operations = syncQueueDB_getUnsynced (syncQueue s1)
      in if length operations = 0
         then (Inr \<lparr>synced_count = 0, conflicts = []\<rparr>,
               s1\<lparr>ui := setSyncStatus StatusSuccess (ui s1)\<rparr>)
         else (case api_sync_syncOperations rem operations s1 of
                 (Inl e, s2) \<Rightarrow> (Inl e, s2)
               | (Inr result, s2) \<Rightarrow>
                   (let s3 = s2\<lparr>syncQueue :=
                               fold (\<lambda>op. syncQueueDB_markSynced (op_id op)) operations
                                 (syncQueue s2)\<rparr>;
                        s4 = s3\<lparr>syncQueue := syncQueueDB_clearSynced (syncQueue s3)\<rparr>;
                        s5 = s4\<lparr>ui := setOffline False (setSyncStatus StatusSuccess (ui s4))\<rparr>
                    in (Inr result, s5))))"

text \<open>The \<open>catch\<close> block turns every rejection into a normal result.\<close>

definition syncWithBackend :: "remote \<Rightarrow> app \<Rightarrow> (error + sync_result) \<times> app" where
  "syncWithBackend rem s =
     (case syncWithBackend_try rem s of
        (Inr result, s1) \<Rightarrow> (Inr result, s1)
      | (Inl e, s1) \<Rightarrow>
          (Inr \<lparr>synced_count = 0, conflicts = []\<rparr>,
           s1\<lparr>ui := setOffline True (setSyncStatus StatusError (ui s1))\<rparr>))"

text \<open>
  \<open>loadTasks\<close>. The Local Store is taken as available, so nothing inside the outer
  \<open>try\<close> throws past the inner \<open>catch\<close>; \<open>finally\<close> resets the loading flag.
\<close>

definition loadTasks :: "remote \<Rightarrow> app \<Rightarrow> (error + unit) \<times> app" where
  "loadTasks rem s =
     (let s1 = s\<lparr>ui := setLoading True (ui s)\<rparr>;
          s4 = (case api_tasks_list rem s1 of
                  (Inr ts, s2) \<Rightarrow>
                    (let s3 = s2\<lparr>ui := setTasks ts (ui s2)\<rparr>;
                         s3' = s3\<lparr>taskStore := taskDB_bulkPut ts (taskStore s3)\<rparr>
                     in s3'\<lparr>ui := setOffline False (ui s3')\<rparr>)
                | (Inl apiError, s2) \<Rightarrow>
                    (let ts = taskDB_getAll (taskStore s2);
                         s3 = s2\<lparr>ui := setTasks ts (ui s2)\<rparr>
                     in s3\<lparr>ui := setOffline True (ui s3)\<rparr>))
      in (Inr (), s4\<lparr>ui := setLoading False (ui s4)\<rparr>))"

definition resolveConflict :: "remote \<Rightarrow> string \<Rightarrow> bool \<Rightarrow> app \<Rightarrow> (error + unit) \<times> app" where
  "resolveConflict rem i useLocal s =
     (if useLocal
      then (case taskDB_get i (taskStore s) of
              None \<Rightarrow> (Inr (), s)
            | Some localTask \<Rightarrow>
                (case api_tasks_update rem i (partial_of_task localTask) s of
                   (Inl e, s1) \<Rightarrow> (Inl e, s1)
                 | (Inr ack, s1) \<Rightarrow> (Inr (), s1)))
      else (case api_tasks_get rem i s of
              (Inl e, s1) \<Rightarrow> (Inl e, s1)
            | (Inr remoteTask, s1) \<Rightarrow>
                (let s2 = s1\<lparr>taskStore := taskDB_put remoteTask (taskStore s1)\<rparr>;
                     s3 = s2\<lparr>ui := updateTask i (partial_of_task remoteTask) (ui s2)\<rparr>
                 in (Inr (), s3))))"

text \<open>\<open>autoSync\<close>; \<open>onLine\<close> is the browser's \<open>navigator.onLine\<close>.\<close>

definition autoSync :: "bool \<Rightarrow> remote \<Rightarrow> app \<Rightarrow> (error + unit) \<times> app" where
  "autoSync onLine rem s =
     (if onLine
      then (case syncWithBackend rem s of
              (Inl e, s1) \<Rightarrow> (Inl e, s1)
            | (Inr r, s1) \<Rightarrow> (Inr (), s1))
      else (Inr (), s))"

section \<open>The components that issue mutations\<close>

text \<open>
  \<open>String.prototype.trim\<close> strips white space and line terminators. Up to U+00FF
  these are tab, line feed, vertical tab, form feed, carriage return, space and the
  no-break space U+00A0.
\<close>

definition is_space :: "char \<Rightarrow> bool" where
  "is_space c =
     (c \<in> {CHR 0x09, CHR 0x0A, CHR 0x0B, CHR 0x0C, CHR 0x0D, CHR '' '', CHR 0xA0})"

definition trim :: "string \<Rightarrow> string" where
  "trim x = rev (dropWhile is_space (rev (dropWhile is_space x)))"

text \<open>The state of \<open>AddTaskForm\<close>.\<close>

record form =
  f_title :: string
  f_description :: string
  isSubmitting :: bool

definition handleSubmit ::
  "remote \<Rightarrow> string \<Rightarrow> string \<Rightarrow> string \<Rightarrow> form \<Rightarrow> app \<Rightarrow> form \<times> app" where
  "handleSubmit rem tempId now opId f s =
     (if trim (f_title f) = [] then (f, s)
      else
        (let taskData = \<lparr>d_title = trim (f_title f),
                          d_description = (if trim (f_description f) = [] then None
                                           else Some (trim (f_description f)))\<rparr>;
             s' = (if isOffline (ui s)
                   then snd (createTaskOffline taskData tempId now opId s)
                   else (case api_tasks_create rem taskData s of
                           (Inr t, s1) \<Rightarrow> s1\<lparr>ui := addTask t (ui s1)\<rparr>
                         | (Inl e, s1) \<Rightarrow> snd (createTaskOffline taskData tempId now opId s1)))
         in (f\<lparr>f_title := [], f_description := [], isSubmitting := False\<rparr>, s')))"

text \<open>\<open>TaskList\<close>: the handlers read \<open>tasks\<close> and \<open>isOffline\<close> from the UI store.\<close>

definition handleToggleComplete ::
  "remote \<Rightarrow> string \<Rightarrow> string \<Rightarrow> string \<Rightarrow> app \<Rightarrow> (error + unit) \<times> app" where
  "handleToggleComplete rem i now opId s =
     (case find (\<lambda>t. task_id t = i) (tasks (ui s)) of
        None \<Rightarrow> (Inr (), s)
      | Some t \<Rightarrow>
          (let updates = empty_partial\<lparr>p_completed := Some (\<not> completed t)\<rparr>
           in if isOffline (ui s)
              then updateTaskOffline i updates now opId s
              else (case api_tasks_update rem i updates s of
                      (Inr ack, s1) \<Rightarrow> (Inr (), s1\<lparr>ui := updateTask i updates (ui s1)\<rparr>)
                    | (Inl e, s1) \<Rightarrow> updateTaskOffline i updates now opId s1)))"

definition handleDelete ::
  "remote \<Rightarrow> string \<Rightarrow> string \<Rightarrow> string \<Rightarrow> app \<Rightarrow> (error + unit) \<times> app" where
  "handleDelete rem i opId now s =
     (if isOffline (ui s)
      then (Inr (), deleteTaskOffline i opId now s)
      else (case api_tasks_delete rem i s of
              (Inr ack, s1) \<Rightarrow> (Inr (), s1\<lparr>ui := deleteTask i (ui s1)\<rparr>)
            | (Inl e, s1) \<Rightarrow> (Inr (), deleteTaskOffline i opId now s1)))"

section \<open>Concrete scenarios\<close>

text \<open>The initial UI store, an empty Local Store, and no request sent.\<close>

definition ui0 :: task_state where
  "ui0 = \<lparr>tasks = [], loading = False, error = None, syncStatus = StatusIdle,
     isOffline = False\<rparr>"

definition app0 :: app where
  "app0 = \<lparr>taskStore = [], syncQueue = [], ui = ui0, net = []\<rparr>"

text \<open>The record the server answers a create with (Scenario B).\<close>

definition srv42 :: task where
  "srv42 = \<lparr>task_id = ''srv-42'', title = ''Call dentist'', description = None,
     completed = False, createdAt = ''2026-01-01T10:00:00.000Z'',
     updatedAt = ''2026-01-01T10:00:00.000Z'', userId = ''u1'', version = 1\<rparr>"

text \<open>Task \<open>t1\<close> as held locally at version 2 and as held by the server at version 3.\<close>

definition t1_local :: task where
  "t1_local = \<lparr>task_id = ''t1'', title = ''Buy milk'', description = None,
     completed = True, createdAt = ''2026-01-01T09:00:00.000Z'',
     updatedAt = ''2026-01-01T09:30:00.000Z'', userId = ''u1'', version = 2\<rparr>"

definition t1_server :: task where
  "t1_server = \<lparr>task_id = ''t1'', title = ''Buy oat milk'', description = None,
     completed = False, createdAt = ''2026-01-01T09:00:00.000Z'',
     updatedAt = ''2026-01-01T09:45:00.000Z'', userId = ''u1'', version = 3\<rparr>"

text \<open>The server's acknowledgment of a forced update of \<open>t1\<close>: the local fields, version 4.\<close>

definition t1_ack :: task where
  "t1_ack = t1_local\<lparr>updatedAt := ''2026-01-01T11:00:00.000Z'', version := 4\<rparr>"

definition network_error :: error where
  "network_error = ApiError ''Network error - please check your connection'' None
     (Some ''NETWORK_ERROR'')"

text \<open>A service every call to which fails, as when the network is unreachable.\<close>

definition remote_down :: remote where
  "remote_down = \<lparr>resp_list = Inl network_error, resp_get = (\<lambda>i. Inl network_error),
     resp_create = (\<lambda>b. Inl network_error), resp_update = (\<lambda>i b. Inl network_error),
     resp_delete = (\<lambda>i. Inl network_error),
     resp_syncOperations = (\<lambda>ops. Inl network_error)\<rparr>"

text \<open>
  A reachable service: it creates \<open>srv-42\<close>, holds \<open>t1\<close> at version 3, acknowledges an
  update of \<open>t1\<close> with version 4, and accepts every operation of a batch.
\<close>

definition remote_up :: remote where
  "remote_up = \<lparr>resp_list = Inr [srv42], resp_get = (\<lambda>i. Inr t1_server),
     resp_create = (\<lambda>b. Inr srv42), resp_update = (\<lambda>i b. Inr t1_ack),
     resp_delete = (\<lambda>i. Inr i),
     resp_syncOperations = (\<lambda>ops. Inr \<lparr>synced_count = int (length ops), conflicts = []\<rparr>)\<rparr>"

text \<open>The same service, answering a batch with one conflict for \<open>t1\<close> (Scenario D).\<close>

definition remote_conflict :: remote where
  "remote_conflict = remote_up\<lparr>resp_syncOperations :=
     (\<lambda>ops. Inr \<lparr>synced_count = 0, conflicts = [t1_server]\<rparr>)\<rparr>"

text \<open>A device that holds \<open>t1\<close> in its Local Store and shows it.\<close>

definition app_t1 :: app where
  "app_t1 = \<lparr>taskStore = [t1_local], syncQueue = [], ui = ui0\<lparr>tasks := [t1_local]\<rparr>,
     net = []\<rparr>"

definition dentist_form :: form where
  "dentist_form = \<lparr>f_title = ''Call dentist'', f_description = [], isSubmitting = False\<rparr>"

text \<open>Two edits of the title of \<open>t1\<close> (Scenario C), and the operations they queue.\<close>

definition edit_a :: partial_task where
  "edit_a = empty_partial\<lparr>p_title := Some ''Buy milk and eggs''\<rparr>"

definition edit_b :: partial_task where
  "edit_b = empty_partial\<lparr>p_title := Some ''Buy milk, eggs and tea''\<rparr>"

definition op_a :: sync_operation where
  "op_a = \<lparr>op_id = ''1767261600000-k3x9q2m1z'', operation = Update, taskId = ''t1'',
     data = edit_a, timestamp = ''2026-01-01T10:00:00.000Z'', synced = False\<rparr>"

definition op_b :: sync_operation where
  "op_b = \<lparr>op_id = ''1767261600000-a7q2m5c0d'', operation = Update, taskId = ''t1'',
     data = edit_b, timestamp = ''2026-01-01T10:00:00.000Z'', synced = False\<rparr>"

text \<open>The device after the first edit of \<open>t1\<close> while offline, and after the second.\<close>

definition app_edited :: app where
  "app_edited = snd (updateTaskOffline ''t1'' edit_a ''2026-01-01T10:00:00.000Z''
     ''1767261600000-k3x9q2m1z'' app_t1)"

definition app_edited_twice :: app where
  "app_edited_twice = snd (updateTaskOffline ''t1'' edit_b ''2026-01-01T10:00:00.000Z''
     ''1767261600000-a7q2m5c0d'' app_edited)"

text \<open>The device after \<open>Call dentist\<close> was created while online (Scenario B).\<close>

definition app_created_online :: app where
  "app_created_online = snd (handleSubmit remote_up ''1767261600000-p0o9i8u7y''
     ''2026-01-01T10:00:00.000Z'' ''1767261600000-l1k2j3h4g'' dentist_form app0)"

text \<open>An update payload that carries an id other than that of the task it is for.\<close>

definition rename_payload :: partial_task where
  "rename_payload = empty_partial\<lparr>p_id := Some ''t2''\<rparr>"

text \<open>A device that holds \<open>t1\<close> at version \<open>2^53\<close>.\<close>

definition t1_max :: task where
  "t1_max = t1_local\<lparr>version := 9007199254740992\<rparr>"

definition app_max :: app where
  "app_max = \<lparr>taskStore = [t1_max], syncQueue = [], ui = ui0\<lparr>tasks := [t1_max]\<rparr>,
     net = []\<rparr>"

section \<open>Facts about the object stores\<close>

lemma find_append_case:
  "find P (xs @ ys) = (case find P xs of None \<Rightarrow> find P ys | Some x \<Rightarrow> Some x)"
  by (induction xs) auto

lemma find_filter_other_key:
  "find (\<lambda>x. key x = k) (filter (\<lambda>x. key x \<noteq> k') xs) =
     (if k = k' then None else find (\<lambda>x. key x = k) xs)"
  by (induction xs) auto

subsection \<open>Lookup after \<open>put\<close> and \<open>delete\<close>\<close>

lemma store_get_put:
  "store_get key k (store_put key v xs) = (if k = key v then Some v else store_get key k xs)"
  by (auto simp: store_get_def store_put_def find_append_case find_filter_other_key
      split: option.splits)

lemma store_get_delete:
  "store_get key k (store_delete key k' xs) = (if k = k' then None else store_get key k xs)"
  by (simp add: store_get_def store_delete_def find_filter_other_key)

lemma store_get_SomeD: "store_get key k xs = Some v \<Longrightarrow> key v = k \<and> v \<in> set xs"
  by (auto simp: store_get_def find_Some_iff)

lemma store_get_None_iff: "store_get key k xs = None \<longleftrightarrow> (\<forall>x\<in>set xs. key x \<noteq> k)"
  by (auto simp: store_get_def find_None_iff)

lemma set_store_put: "set (store_put key v xs) = insert v {x \<in> set xs. key x \<noteq> key v}"
  by (auto simp: store_put_def)

lemma set_store_getAll: "set (store_getAll key xs) = set xs"
  by (simp add: store_getAll_def)


subsection \<open>A drain that is accepted empties the queue\<close>

lemma fold_store_delete:
  "fold (\<lambda>x. store_delete key (key x)) ds xs = filter (\<lambda>x. key x \<notin> key ` set ds) xs"
  by (induction ds arbitrary: xs) (auto simp: store_delete_def intro: filter_cong)

lemma markSynced_unsynced:
  "{x \<in> set (syncQueueDB_markSynced k q). \<not> synced x} \<subseteq> {x \<in> set q. \<not> synced x \<and> op_id x \<noteq> k}"
proof (cases "store_get op_id k q")
  case None
  then have "syncQueueDB_markSynced k q = q"
    by (simp add: syncQueueDB_markSynced_def)
  moreover from None have "\<forall>x\<in>set q. op_id x \<noteq> k"
    by (simp add: store_get_None_iff)
  ultimately show ?thesis by auto
next
  case (Some v)
  then have "op_id v = k" by (simp add: store_get_SomeD)
  with Some show ?thesis
    by (auto simp: syncQueueDB_markSynced_def set_store_put)
qed

lemma fold_markSynced_unsynced:
  "{x \<in> set (fold (\<lambda>v. syncQueueDB_markSynced (op_id v)) vs q). \<not> synced x}
     \<subseteq> {x \<in> set q. \<not> synced x \<and> op_id x \<notin> op_id ` set vs}"
proof (induction vs arbitrary: q)
  case Nil
  show ?case by simp
next
  case (Cons v vs)
  have "{x \<in> set (fold (\<lambda>v. syncQueueDB_markSynced (op_id v)) (v # vs) q). \<not> synced x}
        \<subseteq> {x \<in> set (syncQueueDB_markSynced (op_id v) q). \<not> synced x \<and> op_id x \<notin> op_id ` set vs}"
    using Cons.IH [of "syncQueueDB_markSynced (op_id v) q"] by simp
  also have "\<dots> \<subseteq> {x \<in> set q. \<not> synced x \<and> op_id x \<notin> op_id ` set (v # vs)}"
    using markSynced_unsynced [of "op_id v" q] by auto
  finally show ?case .
qed

lemma set_getUnsynced: "set (syncQueueDB_getUnsynced q) = {x \<in> set q. \<not> synced x}"
  by (auto simp: syncQueueDB_getUnsynced_def set_store_getAll)

lemma marked_all_synced:
  "x \<in> set (fold (\<lambda>v. syncQueueDB_markSynced (op_id v)) (syncQueueDB_getUnsynced q) q) \<Longrightarrow> synced x"
  using fold_markSynced_unsynced [of "syncQueueDB_getUnsynced q" q]
  by (auto simp: set_getUnsynced)

lemma clearSynced_eq:
  "syncQueueDB_clearSynced q = filter (\<lambda>x. op_id x \<notin> op_id ` {y \<in> set q. synced y}) q"
  by (simp add: syncQueueDB_clearSynced_def fold_store_delete set_store_getAll)

lemma clearSynced_all_synced: "(\<And>x. x \<in> set q \<Longrightarrow> synced x) \<Longrightarrow> syncQueueDB_clearSynced q = []"
  by (auto simp: clearSynced_eq filter_empty_conv)

lemma drained_queue_empty:
  "syncQueueDB_clearSynced
     (fold (\<lambda>v. syncQueueDB_markSynced (op_id v)) (syncQueueDB_getUnsynced q) q) = []"
  by (rule clearSynced_all_synced) (rule marked_all_synced)

subsection \<open>The three outcomes of \<open>syncWithBackend\<close>\<close>

lemma syncWithBackend_empty:
  "syncQueueDB_getUnsynced (syncQueue s) = [] \<Longrightarrow>
   syncWithBackend rem s =
     (Inr \<lparr>synced_count = 0, conflicts = []\<rparr>, s\<lparr>ui := (ui s)\<lparr>syncStatus := StatusSuccess\<rparr>\<rparr>)"
  by (simp add: syncWithBackend_def syncWithBackend_try_def setSyncStatus_def)

lemma syncWithBackend_fail:
  "syncQueueDB_getUnsynced (syncQueue s) \<noteq> [] \<Longrightarrow>
   resp_syncOperations rem (syncQueueDB_getUnsynced (syncQueue s)) = Inl e \<Longrightarrow>
   syncWithBackend rem s =
     (Inr \<lparr>synced_count = 0, conflicts = []\<rparr>,
      s\<lparr>ui := (ui s)\<lparr>syncStatus := StatusError, isOffline := True\<rparr>,
        net := net s @ [SyncOperations (syncQueueDB_getUnsynced (syncQueue s))]\<rparr>)"
  by (simp add: syncWithBackend_def syncWithBackend_try_def setSyncStatus_def setOffline_def
      api_sync_syncOperations_def)

lemma syncWithBackend_ok:
  "syncQueueDB_getUnsynced (syncQueue s) \<noteq> [] \<Longrightarrow>
   resp_syncOperations rem (syncQueueDB_getUnsynced (syncQueue s)) = Inr r \<Longrightarrow>
   syncWithBackend rem s =
     (Inr r,
      s\<lparr>syncQueue := [], ui := (ui s)\<lparr>syncStatus := StatusSuccess, isOffline := False\<rparr>,
        net := net s @ [SyncOperations (syncQueueDB_getUnsynced (syncQueue s))]\<rparr>)"
  by (simp add: syncWithBackend_def syncWithBackend_try_def setSyncStatus_def setOffline_def
      api_sync_syncOperations_def drained_queue_empty Let_def)

lemma syncWithBackend_net:
  "syncQueueDB_getUnsynced (syncQueue s) \<noteq> [] \<Longrightarrow>
   net (snd (syncWithBackend rem s)) =
     net s @ [SyncOperations (syncQueueDB_getUnsynced (syncQueue s))]"
  by (cases "resp_syncOperations rem (syncQueueDB_getUnsynced (syncQueue s))")
     (simp_all add: syncWithBackend_fail syncWithBackend_ok)

section \<open>Facts about the offline mutations\<close>

lemma taskDB_get_put:
  "taskDB_get k (taskDB_put t db) = (if k = task_id t then Some t else taskDB_get k db)"
  by (simp add: taskDB_get_def taskDB_put_def store_get_put)

lemma taskDB_get_delete:
  "taskDB_get k (taskDB_delete k' db) = (if k = k' then None else taskDB_get k db)"
  by (simp add: taskDB_get_def taskDB_delete_def store_get_delete)

lemma taskDB_get_SomeD: "taskDB_get k db = Some t \<Longrightarrow> task_id t = k"
  by (simp add: taskDB_get_def store_get_SomeD)

lemma added_is_unsynced:
  "\<not> synced v \<Longrightarrow> v \<in> set (syncQueueDB_getUnsynced (syncQueueDB_add v q))"
  by (simp add: set_getUnsynced syncQueueDB_add_def set_store_put)

lemma taskStore_createTaskOffline:
  "taskStore (snd (createTaskOffline d tempId now opId s)) =
     taskDB_put (fst (createTaskOffline d tempId now opId s)) (taskStore s)"
  by (simp add: createTaskOffline_def Let_def)

lemma fst_createTaskOffline:
  "fst (createTaskOffline d tempId now opId s) =
     \<lparr>task_id = tempId, title = d_title d, description = d_description d, completed = False,
      createdAt = now, updatedAt = now, userId = ''temp'', version = 1\<rparr>"
  by (simp add: createTaskOffline_def Let_def)

lemma syncQueue_createTaskOffline:
  "syncQueue (snd (createTaskOffline d tempId now opId s)) =
     syncQueueDB_add \<lparr>op_id = opId, operation = Create, taskId = tempId,
        data = partial_of_task (fst (createTaskOffline d tempId now opId s)),
        timestamp = now, synced = False\<rparr> (syncQueue s)"
  by (simp add: createTaskOffline_def Let_def)

lemma updateTaskOffline_found:
  "taskDB_get i (taskStore s) = Some t \<Longrightarrow>
   updateTaskOffline i u now opId s =
     (Inr (),
      s\<lparr>taskStore := taskDB_put ((spread t u)\<lparr>updatedAt := now,
                                          version := add_one (version t)\<rparr>)
                       (taskStore s),
        syncQueue := syncQueueDB_add \<lparr>op_id = opId, operation = Update, taskId = i, data = u,
                       timestamp = now, synced = False\<rparr> (syncQueue s),
        ui := updateTask i u (ui s)\<rparr>)"
  by (simp add: updateTaskOffline_def Let_def)

lemma deleteTaskOffline_eq:
  "deleteTaskOffline i opId now s =
     s\<lparr>taskStore := taskDB_delete i (taskStore s),
       syncQueue := syncQueueDB_add \<lparr>op_id = opId, operation = Delete, taskId = i,
                      data = empty_partial, timestamp = now, synced = False\<rparr> (syncQueue s),
       ui := deleteTask i (ui s)\<rparr>"
  by (simp add: deleteTaskOffline_def Let_def)

lemma task_id_spread: "task_id (spread t u) = (case p_id u of None \<Rightarrow> task_id t | Some j \<Rightarrow> j)"
  by (simp add: spread_def)

section \<open>Facts about the handlers\<close>

lemma spread_completed_only:
  "spread t (empty_partial\<lparr>p_completed := Some b\<rparr>) = t\<lparr>completed := b\<rparr>"
  by (simp add: spread_def empty_partial_def)

lemma handleSubmit_online_ok:
  assumes "trim (f_title f) \<noteq> []" and "\<not> isOffline (ui s)"
    and "resp_create rem (create_request_body
           \<lparr>d_title = trim (f_title f),
            d_description = (if trim (f_description f) = [] then None
                             else Some (trim (f_description f)))\<rparr>) = Inr t"
  shows "snd (handleSubmit rem tempId now opId f s) =
           s\<lparr>ui := addTask t (ui s),
             net := net s @ [TasksCreate (create_request_body
               \<lparr>d_title = trim (f_title f),
                d_description = (if trim (f_description f) = [] then None
                                 else Some (trim (f_description f)))\<rparr>)]\<rparr>"
  using assms by (simp add: handleSubmit_def api_tasks_create_def Let_def)

lemma handleSubmit_online_fail:
  assumes "trim (f_title f) \<noteq> []" and "\<not> isOffline (ui s)"
    and "resp_create rem (create_request_body
           \<lparr>d_title = trim (f_title f),
            d_description = (if trim (f_description f) = [] then None
                             else Some (trim (f_description f)))\<rparr>) = Inl e"
  shows "snd (handleSubmit rem tempId now opId f s) =
           snd (createTaskOffline
             \<lparr>d_title = trim (f_title f),
              d_description = (if trim (f_description f) = [] then None
                               else Some (trim (f_description f)))\<rparr> tempId now opId
             (s\<lparr>net := net s @ [TasksCreate (create_request_body
               \<lparr>d_title = trim (f_title f),
                d_description = (if trim (f_description f) = [] then None
                                 else Some (trim (f_description f)))\<rparr>)]\<rparr>))"
  using assms by (simp add: handleSubmit_def api_tasks_create_def Let_def)

lemma handleToggleComplete_online_fail:
  assumes "find (\<lambda>t. task_id t = i) (tasks (ui s)) = Some shown" and "\<not> isOffline (ui s)"
    and "resp_update rem i
           (update_request_body (empty_partial\<lparr>p_completed := Some (\<not> completed shown)\<rparr>)) = Inl e"
  shows "handleToggleComplete rem i now opId s =
           updateTaskOffline i (empty_partial\<lparr>p_completed := Some (\<not> completed shown)\<rparr>) now opId
             (s\<lparr>net := net s @ [TasksUpdate i
                (update_request_body (empty_partial\<lparr>p_completed := Some (\<not> completed shown)\<rparr>))]\<rparr>)"
  using assms by (simp add: handleToggleComplete_def api_tasks_update_def Let_def)

lemma handleDelete_online_fail:
  assumes "\<not> isOffline (ui s)" and "resp_delete rem i = Inl e"
  shows "handleDelete rem i opId now s =
           (Inr (), deleteTaskOffline i opId now (s\<lparr>net := net s @ [TasksDelete i]\<rparr>))"
  using assms by (simp add: handleDelete_def api_tasks_delete_def)

text \<open>
  What the fallback of each handler leaves behind when the direct call fails: the
  created task and its \<open>create\<close> operation; for a task that the Local Store holds,
  the merged record and its \<open>update\<close> operation; the removal and its \<open>delete\<close>
  operation.
\<close>

lemma fallback_keeps_mutation:
  "(trim (f_title f) \<noteq> [] \<and> \<not> isOffline (ui s) \<and>
    resp_create rem (create_request_body
      \<lparr>d_title = trim (f_title f),
       d_description = (if trim (f_description f) = [] then None
                        else Some (trim (f_description f)))\<rparr>) = Inl e
    \<longrightarrow>
      taskDB_get tempId (taskStore (snd (handleSubmit rem tempId now opId f s))) =
        Some \<lparr>task_id = tempId, title = trim (f_title f),
              description = (if trim (f_description f) = [] then None
                             else Some (trim (f_description f))),
              completed = False, createdAt = now, updatedAt = now, userId = ''temp'',
              version = 1\<rparr> \<and>
      \<lparr>op_id = opId, operation = Create, taskId = tempId,
        data = partial_of_task
          \<lparr>task_id = tempId, title = trim (f_title f),
           description = (if trim (f_description f) = [] then None
                          else Some (trim (f_description f))),
           completed = False, createdAt = now, updatedAt = now, userId = ''temp'',
           version = 1\<rparr>,
        timestamp = now, synced = False\<rparr>
        \<in> set (syncQueueDB_getUnsynced (syncQueue (snd (handleSubmit rem tempId now opId f s)))))
   \<and>
   (find (\<lambda>x. task_id x = i) (tasks (ui s)) = Some shown \<and> taskDB_get i (taskStore s) = Some t \<and>
    \<not> isOffline (ui s) \<and>
    resp_update rem i
      (update_request_body (empty_partial\<lparr>p_completed := Some (\<not> completed shown)\<rparr>)) = Inl e
    \<longrightarrow>
      fst (handleToggleComplete rem i now opId s) = Inr () \<and>
      taskDB_get i (taskStore (snd (handleToggleComplete rem i now opId s))) =
        Some (t\<lparr>completed := \<not> completed shown, updatedAt := now,
                version := add_one (version t)\<rparr>) \<and>
      \<lparr>op_id = opId, operation = Update, taskId = i,
        data = empty_partial\<lparr>p_completed := Some (\<not> completed shown)\<rparr>,
        timestamp = now, synced = False\<rparr>
        \<in> set (syncQueueDB_getUnsynced (syncQueue (snd (handleToggleComplete rem i now opId s)))))
   \<and>
   (\<not> isOffline (ui s) \<and> resp_delete rem i = Inl e
    \<longrightarrow>
      fst (handleDelete rem i opId now s) = Inr () \<and>
      taskDB_get i (taskStore (snd (handleDelete rem i opId now s))) = None \<and>
      \<lparr>op_id = opId, operation = Delete, taskId = i, data = empty_partial,
        timestamp = now, synced = False\<rparr>
        \<in> set (syncQueueDB_getUnsynced (syncQueue (snd (handleDelete rem i opId now s)))))"
proof (intro conjI impI; (elim conjE)?)
  assume "trim (f_title f) \<noteq> []" "\<not> isOffline (ui s)"
    "resp_create rem (create_request_body
      \<lparr>d_title = trim (f_title f),
       d_description = (if trim (f_description f) = [] then None
                        else Some (trim (f_description f)))\<rparr>) = Inl e"
  note h = handleSubmit_online_fail [OF this]
  show "taskDB_get tempId (taskStore (snd (handleSubmit rem tempId now opId f s))) =
        Some \<lparr>task_id = tempId, title = trim (f_title f),
              description = (if trim (f_description f) = [] then None
                             else Some (trim (f_description f))),
              completed = False, createdAt = now, updatedAt = now, userId = ''temp'',
              version = 1\<rparr>"
    by (simp add: h taskStore_createTaskOffline fst_createTaskOffline taskDB_get_put)
  show "\<lparr>op_id = opId, operation = Create, taskId = tempId,
        data = partial_of_task
          \<lparr>task_id = tempId, title = trim (f_title f),
           description = (if trim (f_description f) = [] then None
                          else Some (trim (f_description f))),
           completed = False, createdAt = now, updatedAt = now, userId = ''temp'',
           version = 1\<rparr>,
        timestamp = now, synced = False\<rparr>
        \<in> set (syncQueueDB_getUnsynced (syncQueue (snd (handleSubmit rem tempId now opId f s))))"
    by (simp add: h syncQueue_createTaskOffline fst_createTaskOffline added_is_unsynced)
next
  assume a: "find (\<lambda>x. task_id x = i) (tasks (ui s)) = Some shown" "\<not> isOffline (ui s)"
    "resp_update rem i
      (update_request_body (empty_partial\<lparr>p_completed := Some (\<not> completed shown)\<rparr>)) = Inl e"
    and g: "taskDB_get i (taskStore s) = Some t"
  from g have k: "task_id t = i" by (rule taskDB_get_SomeD)
  note h = handleToggleComplete_online_fail [OF a]
  from g show "fst (handleToggleComplete rem i now opId s) = Inr ()"
    by (simp add: h updateTaskOffline_found)
  from g k show "taskDB_get i (taskStore (snd (handleToggleComplete rem i now opId s))) =
        Some (t\<lparr>completed := \<not> completed shown, updatedAt := now,
                version := add_one (version t)\<rparr>)"
    by (simp add: h updateTaskOffline_found taskDB_get_put spread_completed_only)
  from g show "\<lparr>op_id = opId, operation = Update, taskId = i,
        data = empty_partial\<lparr>p_completed := Some (\<not> completed shown)\<rparr>,
        timestamp = now, synced = False\<rparr>
        \<in> set (syncQueueDB_getUnsynced (syncQueue (snd (handleToggleComplete rem i now opId s))))"
    by (simp add: h updateTaskOffline_found added_is_unsynced)
next
  assume a: "\<not> isOffline (ui s)" "resp_delete rem i = Inl e"
  note h = handleDelete_online_fail [OF a]
  show "fst (handleDelete rem i opId now s) = Inr ()"
    by (simp add: h)
  show "taskDB_get i (taskStore (snd (handleDelete rem i opId now s))) = None"
    by (simp add: h deleteTaskOffline_eq taskDB_get_delete)
  show "\<lparr>op_id = opId, operation = Delete, taskId = i, data = empty_partial,
        timestamp = now, synced = False\<rparr>
        \<in> set (syncQueueDB_getUnsynced (syncQueue (snd (handleDelete rem i opId now s))))"
    by (simp add: h deleteTaskOffline_eq added_is_unsynced)
qed

section \<open>Facts about ordering, loading and conflict resolution\<close>



lemma taskDB_get_bulkPut:
  "taskDB_get k (taskDB_bulkPut ts db) =
     (case find (\<lambda>t. task_id t = k) (rev ts) of
        None \<Rightarrow> taskDB_get k db
      | Some t \<Rightarrow> Some t)"
proof (induction ts arbitrary: db)
  case Nil
  show ?case by (simp add: taskDB_bulkPut_def)
next
  case (Cons t ts)
  have "taskDB_bulkPut (t # ts) db = taskDB_bulkPut ts (taskDB_put t db)"
    by (simp add: taskDB_bulkPut_def)
  then show ?case
    by (simp add: Cons.IH taskDB_get_put find_append_case split: option.split)
qed

lemma loadTasks_ok:
  "resp_list rem = Inr ts \<Longrightarrow>
   loadTasks rem s =
     (Inr (), s\<lparr>taskStore := taskDB_bulkPut ts (taskStore s),
               ui := (ui s)\<lparr>tasks := ts, loading := False, isOffline := False\<rparr>,
               net := net s @ [TasksList]\<rparr>)"
  by (simp add: loadTasks_def api_tasks_list_def setLoading_def setTasks_def setOffline_def
      Let_def)

lemma loadTasks_fail:
  "resp_list rem = Inl e \<Longrightarrow>
   loadTasks rem s =
     (Inr (), s\<lparr>ui := (ui s)\<lparr>tasks := taskDB_getAll (taskStore s), loading := False,
                          isOffline := True\<rparr>,
               net := net s @ [TasksList]\<rparr>)"
  by (simp add: loadTasks_def api_tasks_list_def setLoading_def setTasks_def setOffline_def
      Let_def)

lemma resolveConflict_local:
  "taskDB_get i (taskStore s) = Some localTask \<Longrightarrow>
   snd (resolveConflict rem i True s) =
     s\<lparr>net := net s @ [TasksUpdate i (update_request_body (partial_of_task localTask))]\<rparr>"
  by (simp add: resolveConflict_def api_tasks_update_def split: sum.split)

lemma resolveConflict_remote:
  "resp_get rem i = Inr remoteTask \<Longrightarrow>
   resolveConflict rem i False s =
     (Inr (), s\<lparr>taskStore := taskDB_put remoteTask (taskStore s),
               ui := updateTask i (partial_of_task remoteTask) (ui s),
               net := net s @ [TasksGet i]\<rparr>)"
  by (simp add: resolveConflict_def api_tasks_get_def Let_def)

lemma update_request_body_task:
  "update_request_body (partial_of_task t) =
     \<lparr>ub_title = Some (title t), ub_description = description t, ub_status = None,
      ub_priority = None, ub_completed = Some (completed t), ub_due_date = None,
      ub_recursion = None, ub_category = None, ub_tags = None\<rparr>"
  by (simp add: update_request_body_def partial_of_task_def split: option.split)

section \<open>Facts about the scenarios\<close>

lemmas scen = app_edited_def app_edited_twice_def app_t1_def ui0_def app0_def t1_local_def
  edit_a_def edit_b_def op_a_def op_b_def empty_partial_def

lemma syncQueue_app_edited: "syncQueue app_edited = [op_a]"
  by (simp add: scen updateTaskOffline_def taskDB_get_def store_get_def Let_def
      syncQueueDB_add_def store_put_def spread_def)

lemma getUnsynced_op_a: "syncQueueDB_getUnsynced [op_a] = [op_a]"
  by (simp add: syncQueueDB_getUnsynced_def store_getAll_def op_a_def)

lemma net_app_edited: "net app_edited = []"
  by (simp add: scen updateTaskOffline_def taskDB_get_def store_get_def Let_def)

lemma taskStore_app_t1: "taskDB_get ''t1'' (taskStore app_t1) = Some t1_local"
  by (simp add: app_t1_def taskDB_get_def store_get_def t1_local_def)

lemma trim_dentist: "trim (f_title dentist_form) = ''Call dentist''"
  by (simp add: dentist_form_def trim_def is_space_def)

lemma trim_dentist_description: "trim (f_description dentist_form) = []"
  by (simp add: dentist_form_def trim_def)

lemma ui_app_t1: "tasks (ui app_t1) = [t1_local]" "\<not> isOffline (ui app_t1)"
  by (simp_all add: app_t1_def ui0_def)

lemma task_id_t1_local: "task_id t1_local = ''t1''"
  by (simp add: t1_local_def)

lemma remote_down_fails:
  "resp_create remote_down b = Inl network_error"
  "resp_update remote_down i u = Inl network_error"
  "resp_delete remote_down i = Inl network_error"
  "resp_syncOperations remote_down ops = Inl network_error"
  by (simp_all add: remote_down_def)

lemma app_created_online_eq:
  "app_created_online = app0\<lparr>ui := ui0\<lparr>tasks := [srv42]\<rparr>,
     net := [TasksCreate (create_request_body \<lparr>d_title = ''Call dentist'', d_description = None\<rparr>)]\<rparr>"
  by (simp add: app_created_online_def handleSubmit_def trim_dentist trim_dentist_description
      app0_def ui0_def api_tasks_create_def remote_up_def addTask_def Let_def)




section \<open>The claims\<close>

subsection \<open>C10: an update of a task the Local Store does not hold\<close>

text \<open>
  C10. \<open>updateTaskOffline(id, updates)\<close> with an \<open>id\<close> that the Local Store does not
  hold rejects with the error \<open>Task not found\<close> and leaves the whole state as it was:
  no task record is written and no operation is queued.
\<close>

theorem updateTaskOffline_not_found:
  assumes "taskDB_get i (taskStore s) = None"
  shows "updateTaskOffline i updates now opId s = (Inl (Error ''Task not found''), s)"
  using assms by (simp add: updateTaskOffline_def)

theorem updateTaskOffline_not_found_witness:
  "taskDB_get ''ghost'' (taskStore app0) = None \<and>
   updateTaskOffline ''ghost'' edit_a ''2026-01-01T10:00:00.000Z'' ''1767261600000-k3x9q2m1z'' app0
     = (Inl (Error ''Task not found''), app0)"
proof -
  have h: "taskDB_get ''ghost'' (taskStore app0) = None"
    by (simp add: app0_def taskDB_get_def store_get_def)
  from h updateTaskOffline_not_found [OF h] show ?thesis by simp
qed

subsection \<open>C8: a drain whose batch call fails\<close>

text \<open>
  C8. When the batch call of a drain fails, \<open>syncWithBackend\<close> still resolves, with
  \<open>synced = 0\<close> and no conflicts; the sync queue (and with it every \<open>synced\<close> flag) and
  the task store are unchanged; and the next drain, whatever the service then answers,
  submits the same operations again.
\<close>

theorem failed_drain_keeps_queue:
  assumes "syncQueueDB_getUnsynced (syncQueue s) \<noteq> []"
    and "resp_syncOperations rem (syncQueueDB_getUnsynced (syncQueue s)) = Inl e"
  shows "fst (syncWithBackend rem s) = Inr \<lparr>synced_count = 0, conflicts = []\<rparr> \<and>
         syncQueue (snd (syncWithBackend rem s)) = syncQueue s \<and>
         taskStore (snd (syncWithBackend rem s)) = taskStore s \<and>
         net (snd (syncWithBackend rem s)) =
           net s @ [SyncOperations (syncQueueDB_getUnsynced (syncQueue s))] \<and>
         net (snd (syncWithBackend rem' (snd (syncWithBackend rem s)))) =
           net (snd (syncWithBackend rem s)) @
             [SyncOperations (syncQueueDB_getUnsynced (syncQueue s))]"
proof -
  let ?s1 = "snd (syncWithBackend rem s)"
  have q: "syncQueue ?s1 = syncQueue s"
    using assms by (simp add: syncWithBackend_fail)
  have "net (snd (syncWithBackend rem' ?s1)) =
          net ?s1 @ [SyncOperations (syncQueueDB_getUnsynced (syncQueue ?s1))]"
    using assms(1) q by (intro syncWithBackend_net) simp
  with q assms show ?thesis
    by (simp add: syncWithBackend_fail)
qed

theorem failed_drain_keeps_queue_witness:
  "fst (syncWithBackend remote_down app_edited) = Inr \<lparr>synced_count = 0, conflicts = []\<rparr> \<and>
   syncQueue (snd (syncWithBackend remote_down app_edited)) = [op_a] \<and>
   net (snd (syncWithBackend remote_up (snd (syncWithBackend remote_down app_edited)))) =
     [SyncOperations [op_a], SyncOperations [op_a]]"
proof -
  have a: "syncQueueDB_getUnsynced (syncQueue app_edited) \<noteq> []"
    by (simp add: syncQueue_app_edited getUnsynced_op_a)
  have b: "resp_syncOperations remote_down (syncQueueDB_getUnsynced (syncQueue app_edited))
             = Inl network_error"
    by (simp add: remote_down_def)
  from failed_drain_keeps_queue [OF a b, of remote_up] show ?thesis
    by (simp add: syncQueue_app_edited getUnsynced_op_a net_app_edited)
qed

subsection \<open>C6: draining twice\<close>

text \<open>
  C6. A drain whose batch call is accepted marks every submitted operation synced and
  purges the synced operations: the queue is empty afterwards. After a drain that
  succeeded (its batch call was accepted, or it had nothing to send), no operation is
  unsynced, and a second drain with no mutation in between resolves to \<open>synced = 0\<close>
  without sending any request and without changing either object store.
\<close>

theorem second_drain_noop:
  assumes "syncQueueDB_getUnsynced (syncQueue s) = [] \<or>
           (\<exists>r. resp_syncOperations rem (syncQueueDB_getUnsynced (syncQueue s)) = Inr r)"
  shows "(syncQueueDB_getUnsynced (syncQueue s) \<noteq> [] \<longrightarrow>
            syncQueueDB_getAll (syncQueue (snd (syncWithBackend rem s))) = []) \<and>
         syncQueueDB_getUnsynced (syncQueue (snd (syncWithBackend rem s))) = [] \<and>
         fst (syncWithBackend rem' (snd (syncWithBackend rem s))) =
           Inr \<lparr>synced_count = 0, conflicts = []\<rparr> \<and>
         net (snd (syncWithBackend rem' (snd (syncWithBackend rem s)))) =
           net (snd (syncWithBackend rem s)) \<and>
         syncQueue (snd (syncWithBackend rem' (snd (syncWithBackend rem s)))) =
           syncQueue (snd (syncWithBackend rem s)) \<and>
         taskStore (snd (syncWithBackend rem' (snd (syncWithBackend rem s)))) =
           taskStore (snd (syncWithBackend rem s))"
proof -
  let ?s1 = "snd (syncWithBackend rem s)"
  have p: "syncQueueDB_getAll (syncQueue ?s1) = []"
    if "syncQueueDB_getUnsynced (syncQueue s) \<noteq> []"
  proof -
    from that assms obtain r where
      "resp_syncOperations rem (syncQueueDB_getUnsynced (syncQueue s)) = Inr r" by blast
    with that show ?thesis
      by (simp add: syncWithBackend_ok syncQueueDB_getAll_def store_getAll_def)
  qed
  have e: "syncQueueDB_getUnsynced (syncQueue ?s1) = []"
  proof (cases "syncQueueDB_getUnsynced (syncQueue s) = []")
    case True
    then show ?thesis by (simp add: syncWithBackend_empty)
  next
    case False
    from p [OF False] show ?thesis
      by (simp add: syncQueueDB_getUnsynced_def syncQueueDB_getAll_def)
  qed
  from e p show ?thesis
    by (simp add: syncWithBackend_empty)
qed

theorem second_drain_noop_witness:
  "syncQueueDB_getUnsynced (syncQueue app_edited) = [op_a] \<and>
   net (snd (syncWithBackend remote_up app_edited)) = [SyncOperations [op_a]] \<and>
   syncQueueDB_getAll (syncQueue (snd (syncWithBackend remote_up app_edited))) = [] \<and>
   fst (syncWithBackend remote_up (snd (syncWithBackend remote_up app_edited))) =
     Inr \<lparr>synced_count = 0, conflicts = []\<rparr> \<and>
   net (snd (syncWithBackend remote_up (snd (syncWithBackend remote_up app_edited)))) =
     [SyncOperations [op_a]]"
proof -
  have a: "syncQueueDB_getUnsynced (syncQueue app_edited) = [] \<or>
           (\<exists>r. resp_syncOperations remote_up (syncQueueDB_getUnsynced (syncQueue app_edited)) = Inr r)"
    by (simp add: remote_up_def)
  have m: "net (snd (syncWithBackend remote_up app_edited)) = [SyncOperations [op_a]]"
    by (simp add: syncWithBackend_net syncQueue_app_edited getUnsynced_op_a net_app_edited)
  from second_drain_noop [OF a, of remote_up] m show ?thesis
    by (simp add: syncQueue_app_edited getUnsynced_op_a)
qed

subsection \<open>C9: the version of a task grows with a local mutation\<close>

text \<open>
  C9, as the code has it. \<open>createTaskOffline\<close> stores the new task with
  \<open>version = 1\<close>. A successful \<open>updateTaskOffline\<close> of a task whose version has a
  magnitude below \<open>2^53\<close>, with a payload that carries no \<open>id\<close> or the id of the task
  itself, stores the task with the version it read plus one, which is strictly
  greater.
\<close>

theorem version_strictly_increases:
  "map_option version
     (taskDB_get tempId (taskStore (snd (createTaskOffline d tempId now opId s)))) = Some 1 \<and>
   (taskDB_get i (taskStore s) = Some t \<and> (p_id u = None \<or> p_id u = Some i) \<and>
    \<bar>version t\<bar> < 2 ^ 53 \<longrightarrow>
      fst (updateTaskOffline i u now' opId' s) = Inr () \<and>
      (\<exists>v. map_option version
              (taskDB_get i (taskStore (snd (updateTaskOffline i u now' opId' s)))) = Some v \<and>
           v = version t + 1 \<and> version t < v))"
proof (intro conjI impI; (elim conjE)?)
  show "map_option version
     (taskDB_get tempId (taskStore (snd (createTaskOffline d tempId now opId s)))) = Some 1"
    by (simp add: taskStore_createTaskOffline taskDB_get_put fst_createTaskOffline)
next
  assume h: "taskDB_get i (taskStore s) = Some t"
    and u: "p_id u = None \<or> p_id u = Some i"
    and r: "\<bar>version t\<bar> < 2 ^ 53"
  from h show "fst (updateTaskOffline i u now' opId' s) = Inr ()"
    by (simp add: updateTaskOffline_found)
  from h have k: "task_id t = i" by (rule taskDB_get_SomeD)
  from r have a: "add_one (version t) = version t + 1"
    by (simp add: add_one_def)
  from u k have "task_id (spread t u) = i"
    by (auto simp: task_id_spread)
  with h a show "\<exists>v. map_option version
              (taskDB_get i (taskStore (snd (updateTaskOffline i u now' opId' s)))) = Some v \<and>
           v = version t + 1 \<and> version t < v"
    by (simp add: updateTaskOffline_found taskDB_get_put)
qed

theorem version_strictly_increases_witness:
  "taskDB_get ''t1'' (taskStore app_t1) = Some t1_local \<and> version t1_local = 2 \<and>
   map_option version (taskDB_get ''t1'' (taskStore app_edited)) = Some 3"
proof -
  have v: "version t1_local = 2" by (simp add: t1_local_def)
  from version_strictly_increases [where i = "''t1''" and s = app_t1 and t = t1_local
      and u = edit_a and now' = "''2026-01-01T10:00:00.000Z''"
      and opId' = "''1767261600000-k3x9q2m1z''"]
    taskStore_app_t1 v
  show ?thesis
    by (simp add: app_edited_def edit_a_def empty_partial_def)
qed

text \<open>
  The claim as stated covers every task and every update. An update of \<open>t1\<close> whose
  payload carries the id \<open>t2\<close> succeeds and leaves the record of \<open>t1\<close>, version 2, as
  it was. An update of a task at version \<open>2^53\<close> succeeds and stores version \<open>2^53\<close>
  again.
\<close>

theorem version_unchanged_counterexample:
  "taskDB_get ''t1'' (taskStore app_t1) = Some t1_local \<and>
   fst (updateTaskOffline ''t1'' rename_payload ''2026-01-01T10:00:00.000Z''
          ''1767261600000-k3x9q2m1z'' app_t1) = Inr () \<and>
   taskDB_get ''t1'' (taskStore (snd (updateTaskOffline ''t1'' rename_payload
          ''2026-01-01T10:00:00.000Z'' ''1767261600000-k3x9q2m1z'' app_t1))) = Some t1_local \<and>
   map_option version (taskDB_get ''t1'' (taskStore app_max)) = Some 9007199254740992 \<and>
   fst (updateTaskOffline ''t1'' edit_a ''2026-01-01T10:00:00.000Z''
          ''1767261600000-k3x9q2m1z'' app_max) = Inr () \<and>
   map_option version (taskDB_get ''t1'' (taskStore (snd (updateTaskOffline ''t1'' edit_a
          ''2026-01-01T10:00:00.000Z'' ''1767261600000-k3x9q2m1z'' app_max)))) =
     Some 9007199254740992"
proof -
  have m: "taskDB_get ''t1'' (taskStore app_max) = Some t1_max"
    by (simp add: app_max_def taskDB_get_def store_get_def t1_max_def task_id_t1_local)
  have v: "version t1_max = 9007199254740992" "task_id t1_max = ''t1''"
    by (simp_all add: t1_max_def task_id_t1_local)
  have a: "add_one 9007199254740992 = 9007199254740992"
    by (simp add: add_one_def)
  have r: "task_id (spread t1_local rename_payload) = ''t2''"
    by (simp add: task_id_spread rename_payload_def empty_partial_def)
  have e: "task_id (spread t1_max edit_a) = ''t1''"
    by (simp add: task_id_spread edit_a_def empty_partial_def v)
  show ?thesis
    by (simp add: updateTaskOffline_found [OF taskStore_app_t1] updateTaskOffline_found [OF m]
        taskDB_get_put r e taskStore_app_t1 m v a)
qed

subsection \<open>C1: a mutation whose direct call fails\<close>

text \<open>
  C1. The claim holds for a create, for a delete, and for the toggle of a task that
  the Local Store holds (\<open>fallback_keeps_mutation\<close>). It fails for the toggle of a
  task that was created while online: such a task is shown but was never written to
  the Local Store, so the fallback of \<open>handleToggleComplete\<close> reaches the
  \<open>Task not found\<close> guard of \<open>updateTaskOffline\<close> and rejects. Nothing is applied and
  nothing is queued, where the fallback of \<open>handleDelete\<close> in the same state queues
  its operation.
\<close>

theorem toggle_after_online_create_is_lost:
  "tasks (ui app_created_online) = [srv42] \<and>
   fst (handleToggleComplete remote_down ''srv-42'' ''2026-01-01T10:05:00.000Z''
          ''1767261900000-z9y8x7w6v'' app_created_online) = Inl (Error ''Task not found'') \<and>
   taskStore (snd (handleToggleComplete remote_down ''srv-42'' ''2026-01-01T10:05:00.000Z''
          ''1767261900000-z9y8x7w6v'' app_created_online)) = [] \<and>
   syncQueue (snd (handleToggleComplete remote_down ''srv-42'' ''2026-01-01T10:05:00.000Z''
          ''1767261900000-z9y8x7w6v'' app_created_online)) = [] \<and>
   syncQueue (snd (handleDelete remote_down ''srv-42'' ''1767261900000-z9y8x7w6v''
          ''2026-01-01T10:05:00.000Z'' app_created_online)) =
     [\<lparr>op_id = ''1767261900000-z9y8x7w6v'', operation = Delete, taskId = ''srv-42'',
       data = empty_partial, timestamp = ''2026-01-01T10:05:00.000Z'', synced = False\<rparr>]"
proof -
  have "handleToggleComplete remote_down ''srv-42'' ''2026-01-01T10:05:00.000Z''
          ''1767261900000-z9y8x7w6v'' app_created_online =
        (Inl (Error ''Task not found''),
         app_created_online\<lparr>net := net app_created_online @
           [TasksUpdate ''srv-42''
              (update_request_body (empty_partial\<lparr>p_completed := Some True\<rparr>))]\<rparr>)"
    by (simp add: app_created_online_eq handleToggleComplete_def app0_def ui0_def srv42_def
        api_tasks_update_def remote_down_fails updateTaskOffline_def taskDB_get_def
        store_get_def Let_def)
  moreover have "syncQueue (snd (handleDelete remote_down ''srv-42''
          ''1767261900000-z9y8x7w6v'' ''2026-01-01T10:05:00.000Z'' app_created_online)) =
     [\<lparr>op_id = ''1767261900000-z9y8x7w6v'', operation = Delete, taskId = ''srv-42'',
       data = empty_partial, timestamp = ''2026-01-01T10:05:00.000Z'', synced = False\<rparr>]"
    by (simp add: app_created_online_eq app0_def ui0_def handleDelete_def api_tasks_delete_def
        remote_down_fails deleteTaskOffline_eq syncQueueDB_add_def store_put_def)
  moreover have "tasks (ui app_created_online) = [srv42]"
    "taskStore app_created_online = []" "syncQueue app_created_online = []"
    by (simp_all add: app_created_online_eq app0_def ui0_def)
  ultimately show ?thesis by simp
qed

subsection \<open>C3: a create while online\<close>

text \<open>
  C3, as the code has it. A create whose direct call succeeds appends the server's
  record, with the server-assigned id, to the task list of the UI store; the task
  store of the Local Store is not written, and no operation is queued.
\<close>

theorem online_create_skips_local_store:
  assumes "trim (f_title f) \<noteq> []" and "\<not> isOffline (ui s)"
    and "resp_create rem (create_request_body
           \<lparr>d_title = trim (f_title f),
            d_description = (if trim (f_description f) = [] then None
                             else Some (trim (f_description f)))\<rparr>) = Inr t"
  shows "tasks (ui (snd (handleSubmit rem tempId now opId f s))) = tasks (ui s) @ [t] \<and>
         taskStore (snd (handleSubmit rem tempId now opId f s)) = taskStore s \<and>
         syncQueue (snd (handleSubmit rem tempId now opId f s)) = syncQueue s"
  by (simp add: handleSubmit_online_ok [OF assms] addTask_def)

theorem online_create_skips_local_store_witness:
  "tasks (ui (snd (handleSubmit remote_up ''1767261600000-p0o9i8u7y''
      ''2026-01-01T10:00:00.000Z'' ''1767261600000-l1k2j3h4g'' dentist_form app0))) = [srv42] \<and>
   task_id srv42 = ''srv-42'' \<and>
   taskStore (snd (handleSubmit remote_up ''1767261600000-p0o9i8u7y''
      ''2026-01-01T10:00:00.000Z'' ''1767261600000-l1k2j3h4g'' dentist_form app0)) = [] \<and>
   syncQueue (snd (handleSubmit remote_up ''1767261600000-p0o9i8u7y''
      ''2026-01-01T10:00:00.000Z'' ''1767261600000-l1k2j3h4g'' dentist_form app0)) = []"
proof -
  have a: "trim (f_title dentist_form) \<noteq> []" by (simp add: trim_dentist)
  have b: "\<not> isOffline (ui app0)" by (simp add: app0_def ui0_def)
  have c: "resp_create remote_up (create_request_body
           \<lparr>d_title = trim (f_title dentist_form),
            d_description = (if trim (f_description dentist_form) = [] then None
                             else Some (trim (f_description dentist_form)))\<rparr>) = Inr srv42"
    by (simp add: remote_up_def)
  from online_create_skips_local_store [OF a b c] show ?thesis
    by (simp add: app0_def ui0_def srv42_def)
qed

text \<open>
  Scenario B on an empty device: afterwards the Local Store holds no record for
  \<open>srv-42\<close>, or any record at all; only the UI store has it.
\<close>

theorem online_create_counterexample:
  "taskDB_get ''srv-42'' (taskStore app_created_online) = None \<and>
   taskDB_getAll (taskStore app_created_online) = [] \<and>
   tasks (ui app_created_online) = [srv42]"
  by (simp add: app_created_online_eq app0_def ui0_def taskDB_get_def store_get_def
      taskDB_getAll_def store_getAll_def)

subsection \<open>C2: a drain that the service answers with conflicts\<close>

text \<open>
  C2, as the code has it. When the batch call of a drain succeeds, with or without
  conflicts, every submitted operation is marked synced and purged, so the queue is
  empty afterwards; \<open>syncWithBackend\<close> resolves to the response of the service,
  unchanged (its count and its list of conflicting tasks); and neither the task store
  nor the task list of the UI store is touched.
\<close>

theorem accepted_drain_purges_every_operation:
  assumes "syncQueueDB_getUnsynced (syncQueue s) \<noteq> []"
    and "resp_syncOperations rem (syncQueueDB_getUnsynced (syncQueue s)) = Inr r"
  shows "fst (syncWithBackend rem s) = Inr r \<and>
         syncQueueDB_getAll (syncQueue (snd (syncWithBackend rem s))) = [] \<and>
         taskStore (snd (syncWithBackend rem s)) = taskStore s \<and>
         tasks (ui (snd (syncWithBackend rem s))) = tasks (ui s)"
  using assms by (simp add: syncWithBackend_ok syncQueueDB_getAll_def store_getAll_def)

theorem accepted_drain_purges_every_operation_witness:
  "fst (syncWithBackend remote_up app_edited) = Inr \<lparr>synced_count = 1, conflicts = []\<rparr> \<and>
   syncQueueDB_getAll (syncQueue (snd (syncWithBackend remote_up app_edited))) = [] \<and>
   taskStore (snd (syncWithBackend remote_up app_edited)) = taskStore app_edited"
proof -
  have a: "syncQueueDB_getUnsynced (syncQueue app_edited) \<noteq> []"
    by (simp add: syncQueue_app_edited getUnsynced_op_a)
  have b: "resp_syncOperations remote_up (syncQueueDB_getUnsynced (syncQueue app_edited)) =
             Inr \<lparr>synced_count = 1, conflicts = []\<rparr>"
    by (simp add: syncQueue_app_edited getUnsynced_op_a remote_up_def)
  from accepted_drain_purges_every_operation [OF a b] show ?thesis by simp
qed

text \<open>
  Scenario D: the queue holds one update of \<open>t1\<close>, and the service answers the batch
  with a conflict for \<open>t1\<close>. The operation does not stay unsynced: it is gone from the
  queue.
\<close>

theorem conflicting_operation_counterexample:
  "syncQueueDB_getUnsynced (syncQueue app_edited) = [op_a] \<and> taskId op_a = ''t1'' \<and>
   fst (syncWithBackend remote_conflict app_edited) =
     Inr \<lparr>synced_count = 0, conflicts = [t1_server]\<rparr> \<and>
   task_id t1_server = ''t1'' \<and>
   syncQueueDB_getUnsynced (syncQueue (snd (syncWithBackend remote_conflict app_edited))) = [] \<and>
   syncQueueDB_getAll (syncQueue (snd (syncWithBackend remote_conflict app_edited))) = []"
proof -
  have a: "syncQueueDB_getUnsynced (syncQueue app_edited) \<noteq> []"
    by (simp add: syncQueue_app_edited getUnsynced_op_a)
  have b: "resp_syncOperations remote_conflict (syncQueueDB_getUnsynced (syncQueue app_edited)) =
             Inr \<lparr>synced_count = 0, conflicts = [t1_server]\<rparr>"
    by (simp add: remote_conflict_def)
  have c: "taskId op_a = ''t1''" "task_id t1_server = ''t1''"
    by (simp_all add: op_a_def t1_server_def)
  have d: "syncQueueDB_getUnsynced [] = []" "syncQueueDB_getAll [] = []"
    by (simp_all add: syncQueueDB_getUnsynced_def syncQueueDB_getAll_def store_getAll_def)
  show ?thesis
    by (simp add: syncWithBackend_ok [OF a b] syncQueue_app_edited getUnsynced_op_a c d)
qed

subsection \<open>C4: resolving a conflict\<close>

text \<open>
  C4, as the code has it. \<open>resolveConflict(taskId, true)\<close> passes the local record to
  the update call, whose request carries its title, description and completed flag,
  and leaves the Local Store as it was: the acknowledgment of the service is not
  stored. \<open>resolveConflict(taskId, false)\<close> fetches the record of the service, stores
  exactly that record under its id, leaves every other record alone, and sends
  nothing but the fetch.
\<close>

theorem resolveConflict_effects:
  "(taskDB_get i (taskStore s) = Some localTask \<longrightarrow>
      net (snd (resolveConflict rem i True s)) =
        net s @ [TasksUpdate i
          \<lparr>ub_title = Some (title localTask), ub_description = description localTask,
           ub_status = None, ub_priority = None, ub_completed = Some (completed localTask),
           ub_due_date = None, ub_recursion = None, ub_category = None, ub_tags = None\<rparr>] \<and>
      taskStore (snd (resolveConflict rem i True s)) = taskStore s) \<and>
   (resp_get rem i = Inr remoteTask \<longrightarrow>
      fst (resolveConflict rem i False s) = Inr () \<and>
      taskDB_get (task_id remoteTask) (taskStore (snd (resolveConflict rem i False s))) =
        Some remoteTask \<and>
      (k \<noteq> task_id remoteTask \<longrightarrow>
         taskDB_get k (taskStore (snd (resolveConflict rem i False s))) =
           taskDB_get k (taskStore s)) \<and>
      net (snd (resolveConflict rem i False s)) = net s @ [TasksGet i])"
  by (simp add: resolveConflict_local resolveConflict_remote update_request_body_task
      taskDB_get_put)

theorem resolveConflict_effects_witness:
  "taskStore (snd (resolveConflict remote_up ''t1'' True app_t1)) = taskStore app_t1 \<and>
   taskDB_get ''t1'' (taskStore (snd (resolveConflict remote_up ''t1'' False app_t1))) =
     Some t1_server \<and>
   taskDB_get ''srv-42'' (taskStore (snd (resolveConflict remote_up ''t1'' False app_t1))) =
     taskDB_get ''srv-42'' (taskStore app_t1) \<and>
   net (snd (resolveConflict remote_up ''t1'' False app_t1)) = [TasksGet ''t1'']"
proof -
  have g: "resp_get remote_up ''t1'' = Inr t1_server" by (simp add: remote_up_def)
  have i: "task_id t1_server = ''t1''" by (simp add: t1_server_def)
  have n: "net app_t1 = []" by (simp add: app_t1_def)
  from resolveConflict_effects [where i = "''t1''" and s = app_t1 and localTask = t1_local
      and rem = remote_up and remoteTask = t1_server and k = "''srv-42''"]
    taskStore_app_t1 g i n
  show ?thesis by simp
qed

text \<open>
  P5 with \<open>useLocal = true\<close>: the device holds \<open>t1\<close> at version 2, the service
  acknowledges the forced update with version 4, and the Local Store still holds the
  record of version 2.
\<close>

theorem keep_local_counterexample:
  "taskDB_get ''t1'' (taskStore app_t1) = Some t1_local \<and> version t1_local = 2 \<and>
   resp_update remote_up ''t1'' (update_request_body (partial_of_task t1_local)) = Inr t1_ack \<and>
   version t1_ack = 4 \<and>
   fst (resolveConflict remote_up ''t1'' True app_t1) = Inr () \<and>
   taskDB_get ''t1'' (taskStore (snd (resolveConflict remote_up ''t1'' True app_t1))) =
     Some t1_local"
  by (simp add: resolveConflict_def taskStore_app_t1 api_tasks_update_def remote_up_def
      t1_ack_def t1_local_def)

subsection \<open>C5: the order of a batch\<close>




subsection \<open>C7: the initial load\<close>

text \<open>
  C7, as the code has it. \<open>loadTasks\<close> always resolves. When the list call succeeds,
  the UI store shows exactly the returned list and is marked online, and every
  returned task is put into the Local Store: a record with the id of a returned task
  is overwritten (by the last such task), every other cached record stays. When the
  list call fails, the UI store shows the cached tasks and is marked offline, its
  error field is left as it was, and the Local Store is unchanged.
\<close>

theorem loadTasks_effects:
  "(resp_list rem = Inr ts \<longrightarrow>
      fst (loadTasks rem s) = Inr () \<and>
      tasks (ui (snd (loadTasks rem s))) = ts \<and>
      \<not> isOffline (ui (snd (loadTasks rem s))) \<and>
      taskDB_get k (taskStore (snd (loadTasks rem s))) =
        (case find (\<lambda>t. task_id t = k) (rev ts) of
           None \<Rightarrow> taskDB_get k (taskStore s)
         | Some t \<Rightarrow> Some t)) \<and>
   (resp_list rem = Inl e \<longrightarrow>
      fst (loadTasks rem s) = Inr () \<and>
      tasks (ui (snd (loadTasks rem s))) = taskDB_getAll (taskStore s) \<and>
      isOffline (ui (snd (loadTasks rem s))) \<and>
      error (ui (snd (loadTasks rem s))) = error (ui s) \<and>
      taskStore (snd (loadTasks rem s)) = taskStore s)"
  by (simp add: loadTasks_ok loadTasks_fail taskDB_get_bulkPut)

theorem loadTasks_effects_witness:
  "tasks (ui (snd (loadTasks remote_up app_t1))) = [srv42] \<and>
   taskDB_get ''srv-42'' (taskStore (snd (loadTasks remote_up app_t1))) = Some srv42 \<and>
   taskDB_get ''t1'' (taskStore (snd (loadTasks remote_up app_t1))) = Some t1_local \<and>
   tasks (ui (snd (loadTasks remote_down app_t1))) = [t1_local] \<and>
   isOffline (ui (snd (loadTasks remote_down app_t1))) \<and>
   error (ui (snd (loadTasks remote_down app_t1))) = None"
proof -
  have a: "resp_list remote_up = Inr [srv42]" by (simp add: remote_up_def)
  have b: "resp_list remote_down = Inl network_error" by (simp add: remote_down_def)
  have c: "task_id srv42 = ''srv-42''" by (simp add: srv42_def)
  have d: "taskDB_getAll (taskStore app_t1) = [t1_local]" "error (ui app_t1) = None"
    "taskDB_get ''srv-42'' (taskStore app_t1) = None"
    by (simp_all add: app_t1_def ui0_def taskDB_getAll_def store_getAll_def taskDB_get_def
        store_get_def task_id_t1_local)
  from loadTasks_effects [where rem = remote_up and ts = "[srv42]" and s = app_t1
      and k = "''srv-42''"]
    loadTasks_effects [where rem = remote_up and ts = "[srv42]" and s = app_t1
      and k = "''t1''"]
    loadTasks_effects [where rem = remote_down and e = network_error and s = app_t1]
    a b c d taskStore_app_t1
  show ?thesis by simp
qed

text \<open>
  A device that caches \<open>t1\<close> loads a list that holds only \<open>srv-42\<close>: afterwards the
  Local Store holds both records, not exactly the tasks of the service.
\<close>

theorem stale_record_counterexample:
  "resp_list remote_up = Inr [srv42] \<and>
   taskDB_getAll (taskStore (snd (loadTasks remote_up app_t1))) = [srv42, t1_local]"
proof -
  have a: "resp_list remote_up = Inr [srv42]" by (simp add: remote_up_def)
  have "taskStore (snd (loadTasks remote_up app_t1)) = [t1_local, srv42]"
    by (simp add: loadTasks_ok [OF a] taskDB_bulkPut_def taskDB_put_def store_put_def
        app_t1_def t1_local_def srv42_def)
  moreover have "taskDB_getAll [t1_local, srv42] = [srv42, t1_local]"
    by (simp add: taskDB_getAll_def store_getAll_def t1_local_def srv42_def)
  ultimately show ?thesis using a by simp
qed

end
